theory Spec2Isabelle
  imports Main
begin

section \<open>The page: elements, the DOM store and the log of effects\<close>

text \<open>
  The script \<^verbatim>\<open>frontend/app.js\<close> reads one element of the document, writes its text
  content and its class attribute, and calls the platform's \<^verbatim>\<open>fetch\<close> once. An
  element is an object the script holds a reference to, so the page keeps a store from
  handles to elements; the document's index of ids is an association list in tree order
  (\<^verbatim>\<open>getElementById\<close> returns the first element carrying the id, or \<^verbatim>\<open>null\<close>).
  Every effect of the script is also appended to a log, oldest first, so that the order of
  the writes and of the request can be stated.
\<close>

record element =
  textContent :: string
  className :: string

type_synonym handle = nat

datatype effect =
    SetTextContent handle string
  | SetClassName handle string
  | Request string string

record page =
  ids :: "(string \<times> handle) list"
  heap :: "handle \<Rightarrow> element"
  effects :: "effect list"

definition getElementById :: "page \<Rightarrow> string \<Rightarrow> handle option" where
  "getElementById p i = map_of (ids p) i"

definition set_textContent :: "handle \<Rightarrow> string \<Rightarrow> page \<Rightarrow> page" where
  "set_textContent h v p =
     p\<lparr>heap := (heap p)(h := (heap p h)\<lparr>textContent := v\<rparr>),
       effects := effects p @ [SetTextContent h v]\<rparr>"

definition set_className :: "handle \<Rightarrow> string \<Rightarrow> page \<Rightarrow> page" where
  "set_className h v p =
     p\<lparr>heap := (heap p)(h := (heap p h)\<lparr>className := v\<rparr>),
       effects := effects p @ [SetClassName h v]\<rparr>"

section \<open>The platform's fetch\<close>

text \<open>
  \<^verbatim>\<open>fetch(url)\<close> with no second argument starts a GET request and returns a promise;
  the call itself never throws (the platform turns every error of the request into a
  rejection of the promise). The call is the effect \<open>Request ''GET'' url\<close>; the promise
  is settled later by the environment, either fulfilled with a response or rejected with
  an error. Of the response the script reads the field \<^verbatim>\<open>ok\<close> only; the status code,
  the headers and the body are carried along so that theorems can range over them.
\<close>

record response =
  ok :: bool
  status :: nat
  headers :: "(string \<times> string) list"
  body :: string

text \<open>
  The responses the platform builds: it sets \<^verbatim>\<open>ok\<close> exactly for the status codes
  200 to 299.
\<close>

definition platform_response :: "nat \<Rightarrow> (string \<times> string) list \<Rightarrow> string \<Rightarrow> response" where
  "platform_response st hs b =
     \<lparr>ok = (200 \<le> st \<and> st \<le> 299), status = st, headers = hs, body = b\<rparr>"

text \<open>A JavaScript error value: its name and its message.\<close>

datatype js_error = JsError string string

datatype settlement = Fulfilled response | Rejected js_error

definition fetch :: "string \<Rightarrow> page \<Rightarrow> page" where
  "fetch url p = p\<lparr>effects := effects p @ [Request ''GET'' url]\<rparr>"

section \<open>Asynchronous functions as resumptions\<close>

text \<open>
  A call of an \<^verbatim>\<open>async\<close> function runs to its first \<^verbatim>\<open>await\<close> and hands control
  back; the rest runs when the awaited promise settles. A task is therefore either
  finished, with the completion of the promise the function returned (\<open>Returned\<close>: fulfilled
  with \<^verbatim>\<open>undefined\<close>; \<open>Threw e\<close>: rejected with \<open>e\<close>), or suspended on a fetch with
  the continuation that takes the settlement and the page as it is at that moment.
\<close>

datatype completion = Returned | Threw js_error

datatype task = Done completion | Await "settlement \<Rightarrow> page \<Rightarrow> page \<times> task"

fun resume :: "settlement \<Rightarrow> page \<times> task \<Rightarrow> page \<times> task" where
  "resume s (p, Done c) = (p, Done c)"
| "resume s (p, Await k) = k s p"

section \<open>The script\<close>

text \<open>
  The source, \<^verbatim>\<open>frontend/app.js\<close>:
  \<^verbatim>\<open>
  const statusEl = document.getElementById("api-status");
  const API_BASE_URL = "http://localhost:8000";
  async function checkApiHealth() {
    if (!statusEl) return;
    statusEl.textContent = "Connessione...";
    statusEl.className = "pill warning";
    try {
      const response = await fetch(`${API_BASE_URL}/health`);
      if (!response.ok) {
        throw new Error("API non raggiungibile");
      }
      statusEl.textContent = "Online";
      statusEl.className = "pill success";
    } catch (error) {
      statusEl.textContent = "Offline";
      statusEl.className = "pill danger";
    }
  }
  checkApiHealth();
  \<close>
  The function is split at its one \<^verbatim>\<open>await\<close>: \<open>checkApiHealth\<close> is the synchronous
  part, up to and including the call of \<^verbatim>\<open>fetch\<close>, and \<open>checkApiHealth_resume\<close> is the
  rest of the \<^verbatim>\<open>try\<close> statement, run when the promise settles. The constant
  \<^verbatim>\<open>statusEl\<close> is passed as an argument.
\<close>

definition API_BASE_URL :: string where
  "API_BASE_URL = ''http://localhost:8000''"

text \<open>
  The part of the \<^verbatim>\<open>try\<close> block after the \<^verbatim>\<open>await\<close>: a rejected promise is rethrown
  by \<^verbatim>\<open>await\<close>, a response that is not ok throws a fresh \<^verbatim>\<open>Error\<close>, otherwise the two
  writes of the success state happen. The result is the thrown error or normal completion,
  with the page at that point.
\<close>

definition try_block :: "handle \<Rightarrow> settlement \<Rightarrow> page \<Rightarrow> (js_error + unit) \<times> page" where
  "try_block statusEl s p =
     (case s of
        Rejected e \<Rightarrow> (Inl e, p)
      | Fulfilled response \<Rightarrow>
          if \<not> ok response then (Inl (JsError ''Error'' ''API non raggiungibile''), p)
          else (Inr (),
                set_className statusEl ''pill success''
                  (set_textContent statusEl ''Online'' p)))"

definition catch_block :: "handle \<Rightarrow> js_error \<Rightarrow> page \<Rightarrow> (js_error + unit) \<times> page" where
  "catch_block statusEl error p =
     (Inr (),
      set_className statusEl ''pill danger''
        (set_textContent statusEl ''Offline'' p))"

definition checkApiHealth_resume :: "handle \<Rightarrow> settlement \<Rightarrow> page \<Rightarrow> page \<times> task" where
  "checkApiHealth_resume statusEl s p =
     (case try_block statusEl s p of
        (Inr u, p') \<Rightarrow> (p', Done Returned)
      | (Inl e, p') \<Rightarrow>
          (case catch_block statusEl e p' of
             (Inr u, p'') \<Rightarrow> (p'', Done Returned)
           | (Inl e', p'') \<Rightarrow> (p'', Done (Threw e'))))"

definition checkApiHealth :: "handle option \<Rightarrow> page \<Rightarrow> page \<times> task" where
  "checkApiHealth statusEl p =
     (case statusEl of
        None \<Rightarrow> (p, Done Returned)
      | Some el \<Rightarrow>
          (fetch (API_BASE_URL @ ''/health'')
             (set_className el ''pill warning''
                (set_textContent el ''Connessione...'' p)),
           Await (checkApiHealth_resume el)))"

text \<open>
  Loading the script: the lookup of the element, then the one call at the last line. The
  promise the call returns is dropped.
\<close>

definition script :: "page \<Rightarrow> page \<times> task" where
  "script p = checkApiHealth (getElementById p ''api-status'') p"

section \<open>Observations\<close>

text \<open>What the indicator shows: its text and its class attribute.\<close>

definition indicator :: "handle \<Rightarrow> page \<Rightarrow> string \<times> string" where
  "indicator h p = (textContent (heap p h), className (heap p h))"

text \<open>
  Whether a settlement takes the success path of the \<^verbatim>\<open>try\<close> block: a response
  arrived and its \<^verbatim>\<open>ok\<close> flag is set.
\<close>

fun success :: "settlement \<Rightarrow> bool" where
  "success (Fulfilled r) = ok r"
| "success (Rejected e) = False"

text \<open>The effects a stretch of execution added to the log, from page \<open>p\<close> to page \<open>p'\<close>.\<close>

definition new_effects :: "page \<Rightarrow> page \<Rightarrow> effect list" where
  "new_effects p p' = drop (length (effects p)) (effects p')"

fun is_request :: "effect \<Rightarrow> bool" where
  "is_request (Request m u) = True"
| "is_request (SetTextContent h v) = False"
| "is_request (SetClassName h v) = False"

fun class_writes :: "effect list \<Rightarrow> string list" where
  "class_writes [] = []"
| "class_writes (SetClassName h v # es) = v # class_writes es"
| "class_writes (SetTextContent h v # es) = class_writes es"
| "class_writes (Request m u # es) = class_writes es"

text \<open>
  Reading a stretch of the log as writes of a label together with a class: every write of
  a text content must be followed at once by a write of the class attribute of the same
  element, and no class is written alone. The result is the list of (element, (label,
  class)) pairs written, or \<open>None\<close> when some write stands alone. Requests are skipped.
\<close>

fun paired_writes :: "effect list \<Rightarrow> (handle \<times> string \<times> string) list option" where
  "paired_writes [] = Some []"
| "paired_writes (Request m u # es) = paired_writes es"
| "paired_writes (SetTextContent h l # SetClassName h' c # es) =
     (if h = h' then map_option ((#) (h, l, c)) (paired_writes es) else None)"
| "paired_writes (SetTextContent h l # es) = None"
| "paired_writes (SetClassName h c # es) = None"

text \<open>The three (label, class) pairs the source writes, in the order of its lines.\<close>

definition fixed_pairs :: "(string \<times> string) list" where
  "fixed_pairs =
     [(''Connessione...'', ''pill warning''),
      (''Online'', ''pill success''),
      (''Offline'', ''pill danger'')]"

text \<open>The fixed pairs that share their label or their class with what is displayed.\<close>

definition matching_pairs :: "string \<times> string \<Rightarrow> (string \<times> string) list" where
  "matching_pairs x = filter (\<lambda>(l, c). l = fst x \<or> c = snd x) fixed_pairs"

datatype indicator_state = Checking | Online | Offline

definition state_of :: "string \<times> string \<Rightarrow> indicator_state option" where
  "state_of x =
     (if x = (''Connessione...'', ''pill warning'') then Some Checking
      else if x = (''Online'', ''pill success'') then Some Online
      else if x = (''Offline'', ''pill danger'') then Some Offline
      else None)"

text \<open>
  The label of the checking state in the words of the specification: the word
  Connecting followed by the horizontal ellipsis U+2026 (its three bytes in UTF-8).
\<close>

definition spec_checking_label :: string where
  "spec_checking_label = ''Connecting'' @ [CHR 0xE2, CHR 0x80, CHR 0xA6]"

text \<open>Settlements used to evaluate the theorems.\<close>

definition response_200 :: response where
  "response_200 = platform_response 200 [] ''{}''"

definition response_204 :: response where
  "response_204 = platform_response 204 [(''server'', ''uvicorn'')] []"

definition response_500 :: response where
  "response_500 = platform_response 500 [] ''Internal Server Error''"

definition network_error :: js_error where
  "network_error = JsError ''TypeError'' ''Failed to fetch''"

text \<open>
  Two pages used to evaluate the theorems: one whose document holds the status pill, one
  whose document holds another element only.
\<close>

definition pill_page :: page where
  "pill_page =
     \<lparr>ids = [(''api-status'', 0)],
      heap = (\<lambda>h. \<lparr>textContent = '''', className = ''pill''\<rparr>),
      effects = []\<rparr>"

definition bare_page :: page where
  "bare_page =
     \<lparr>ids = [(''title'', 0)],
      heap = (\<lambda>h. \<lparr>textContent = ''ToolHR'', className = ''''\<rparr>),
      effects = []\<rparr>"

section \<open>Basic facts about the writes\<close>

lemma heap_set_textContent:
  "heap (set_textContent h v p) = (heap p)(h := (heap p h)\<lparr>textContent := v\<rparr>)"
  by (simp add: set_textContent_def)

lemma heap_set_className:
  "heap (set_className h v p) = (heap p)(h := (heap p h)\<lparr>className := v\<rparr>)"
  by (simp add: set_className_def)

lemma effects_set_textContent:
  "effects (set_textContent h v p) = effects p @ [SetTextContent h v]"
  by (simp add: set_textContent_def)

lemma effects_set_className:
  "effects (set_className h v p) = effects p @ [SetClassName h v]"
  by (simp add: set_className_def)

lemma ids_set_textContent: "ids (set_textContent h v p) = ids p"
  by (simp add: set_textContent_def)

lemma ids_set_className: "ids (set_className h v p) = ids p"
  by (simp add: set_className_def)

lemma heap_fetch: "heap (fetch url p) = heap p"
  by (simp add: fetch_def)

lemma ids_fetch: "ids (fetch url p) = ids p"
  by (simp add: fetch_def)

lemma effects_fetch: "effects (fetch url p) = effects p @ [Request ''GET'' url]"
  by (simp add: fetch_def)

lemmas write_simps =
  heap_set_textContent heap_set_className effects_set_textContent effects_set_className
  ids_set_textContent ids_set_className heap_fetch ids_fetch effects_fetch

section \<open>What one call does\<close>

lemma checkApiHealth_present:
  "checkApiHealth (Some el) p =
     (fetch (API_BASE_URL @ ''/health'')
        (set_className el ''pill warning'' (set_textContent el ''Connessione...'' p)),
      Await (checkApiHealth_resume el))"
  by (simp add: checkApiHealth_def)

lemma resume_success:
  "success s \<Longrightarrow>
   checkApiHealth_resume el s q =
     (set_className el ''pill success'' (set_textContent el ''Online'' q), Done Returned)"
  by (cases s) (simp_all add: checkApiHealth_resume_def try_block_def)

lemma resume_failure:
  "\<not> success s \<Longrightarrow>
   checkApiHealth_resume el s q =
     (set_className el ''pill danger'' (set_textContent el ''Offline'' q), Done Returned)"
  by (cases s) (simp_all add: checkApiHealth_resume_def try_block_def catch_block_def)

lemma run_present:
  "resume s (checkApiHealth (Some el) p) =
     checkApiHealth_resume el s
       (fetch (API_BASE_URL @ ''/health'')
          (set_className el ''pill warning'' (set_textContent el ''Connessione...'' p)))"
  by (simp add: checkApiHealth_present)

lemma indicator_written:
  "indicator el (set_className el c (set_textContent el l q)) = (l, c)"
  by (simp add: indicator_def write_simps)

lemma effects_written:
  "effects (set_className el c (set_textContent el l q)) =
     effects q @ [SetTextContent el l, SetClassName el c]"
  by (simp add: write_simps)

lemma indicator_present:
  "indicator el (fst (checkApiHealth (Some el) p)) = (''Connessione...'', ''pill warning'')"
  by (simp add: checkApiHealth_present indicator_def write_simps)

lemma indicator_resume:
  "indicator el (fst (checkApiHealth_resume el s q)) =
     (if success s then (''Online'', ''pill success'') else (''Offline'', ''pill danger''))"
  by (simp add: resume_success resume_failure indicator_written)

lemma className_present:
  "className (heap (fst (checkApiHealth (Some el) p)) el) = ''pill warning''"
  by (simp add: checkApiHealth_present write_simps)

lemma className_resume:
  "className (heap (fst (checkApiHealth_resume el s q)) el) =
     (if success s then ''pill success'' else ''pill danger'')"
  by (simp add: resume_success resume_failure write_simps)

lemma task_resume: "snd (checkApiHealth_resume el s q) = Done Returned"
  by (cases "success s") (simp_all add: resume_success resume_failure)

lemma effects_present:
  "effects (fst (checkApiHealth (Some el) p)) =
     effects p @
       [SetTextContent el ''Connessione...'', SetClassName el ''pill warning'',
        Request ''GET'' (API_BASE_URL @ ''/health'')]"
  by (simp add: checkApiHealth_present write_simps)

lemma effects_resume:
  "effects (fst (checkApiHealth_resume el s q)) =
     effects q @
       (if success s then [SetTextContent el ''Online'', SetClassName el ''pill success'']
        else [SetTextContent el ''Offline'', SetClassName el ''pill danger''])"
  by (simp add: resume_success resume_failure effects_written)

lemma effects_run:
  "effects (fst (resume s (checkApiHealth (Some el) p))) =
     effects p @
       [SetTextContent el ''Connessione...'', SetClassName el ''pill warning'',
        Request ''GET'' (API_BASE_URL @ ''/health'')] @
       (if success s then [SetTextContent el ''Online'', SetClassName el ''pill success'']
        else [SetTextContent el ''Offline'', SetClassName el ''pill danger''])"
  by (simp add: run_present effects_resume write_simps)

lemma new_effects_append: "effects p' = effects p @ es \<Longrightarrow> new_effects p p' = es"
  by (simp add: new_effects_def)

lemma new_effects_present:
  "new_effects p (fst (checkApiHealth (Some el) p)) =
     [SetTextContent el ''Connessione...'', SetClassName el ''pill warning'',
      Request ''GET'' (API_BASE_URL @ ''/health'')]"
  by (rule new_effects_append) (rule effects_present)

lemma new_effects_resume:
  "new_effects q (fst (checkApiHealth_resume el s q)) =
     (if success s then [SetTextContent el ''Online'', SetClassName el ''pill success'']
      else [SetTextContent el ''Offline'', SetClassName el ''pill danger''])"
  by (rule new_effects_append) (rule effects_resume)

lemma new_effects_run:
  "new_effects p (fst (resume s (checkApiHealth (Some el) p))) =
     [SetTextContent el ''Connessione...'', SetClassName el ''pill warning'',
      Request ''GET'' (API_BASE_URL @ ''/health'')] @
     (if success s then [SetTextContent el ''Online'', SetClassName el ''pill success'']
      else [SetTextContent el ''Offline'', SetClassName el ''pill danger''])"
  by (rule new_effects_append) (rule effects_run)

section \<open>The absent element\<close>

text \<open>
  Claim C4. If the status element is absent (the lookup yields nothing), the call changes
  nothing on the page, neither the document nor any element, issues no request (the log of
  effects is the same), and finishes at once with a fulfilled promise: it does not raise.
  Both for the function called with \<^verbatim>\<open>null\<close> and for the script loaded on a document
  without the element.
\<close>

theorem absent_element_noop:
  "checkApiHealth None p = (p, Done Returned) \<and>
   (getElementById p ''api-status'' = None \<longrightarrow> script p = (p, Done Returned))"
  by (simp add: checkApiHealth_def script_def)

theorem absent_element_noop_witness:
  "getElementById bare_page ''api-status'' = None \<and>
   checkApiHealth None bare_page = (bare_page, Done Returned) \<and>
   script bare_page = (bare_page, Done Returned)"
  using absent_element_noop [of bare_page]
  by (simp add: getElementById_def bare_page_def)

section \<open>The checking state\<close>

text \<open>
  Claim C1, as amended. Whenever the status element exists, every call sets the indicator
  to the checking state before any network activity: the text \<^verbatim>\<open>Connessione...\<close> and the
  class \<^verbatim>\<open>pill warning\<close> (the base class and the style class warning) are written first,
  the request is issued after the two writes, and when the call hands back control it is
  suspended on the request, not yet settled, with the indicator showing that state. This
  holds from any page, so on every invocation.
\<close>

theorem checking_state_before_request:
  "checkApiHealth (Some el) p = (p1, t) \<Longrightarrow>
     indicator el p1 = (''Connessione...'', ''pill warning'') \<and>
     effects p1 =
       effects p @
         [SetTextContent el ''Connessione...'', SetClassName el ''pill warning'',
          Request ''GET'' (API_BASE_URL @ ''/health'')] \<and>
     t = Await (checkApiHealth_resume el)"
  by (auto simp add: checkApiHealth_present indicator_def write_simps)

theorem checking_state_before_request_witness:
  "indicator 0 (fst (checkApiHealth (Some 0) pill_page)) = (''Connessione...'', ''pill warning'') \<and>
   effects (fst (checkApiHealth (Some 0) pill_page)) =
     [SetTextContent 0 ''Connessione...'', SetClassName 0 ''pill warning'',
      Request ''GET'' ''http://localhost:8000/health''] \<and>
   snd (checkApiHealth (Some 0) pill_page) = Await (checkApiHealth_resume 0)"
  using checking_state_before_request
    [of 0 pill_page "fst (checkApiHealth (Some 0) pill_page)"
      "snd (checkApiHealth (Some 0) pill_page)"]
  by (simp add: pill_page_def API_BASE_URL_def)

text \<open>
  Claim C1 as the specification words it gives the checking state the label Connecting
  followed by an ellipsis. On the page holding the pill, the call leaves the text
  \<^verbatim>\<open>Connessione...\<close>, which is not that label.
\<close>

theorem checking_label_counterexample:
  "indicator 0 (fst (checkApiHealth (Some 0) pill_page)) = (''Connessione...'', ''pill warning'') \<and>
   fst (indicator 0 (fst (checkApiHealth (Some 0) pill_page))) \<noteq> spec_checking_label"
  by (simp add: checkApiHealth_present indicator_def write_simps spec_checking_label_def)

section \<open>The terminal states\<close>

text \<open>
  Claim C2. When the element exists and the request resolves with a response whose
  \<^verbatim>\<open>ok\<close> flag is set, the indicator ends with the text \<^verbatim>\<open>Online\<close> and the class
  \<^verbatim>\<open>pill success\<close> (the base class and the style class success): whatever the page is
  when the response arrives, and in particular for a call run to its end from any page.
  The platform sets the flag for the 2xx status codes, so this is the end state for every
  response with such a code.
\<close>

theorem ok_response_shows_online:
  "ok r \<Longrightarrow>
     indicator el (fst (checkApiHealth_resume el (Fulfilled r) q)) = (''Online'', ''pill success'') \<and>
     indicator el (fst (resume (Fulfilled r) (checkApiHealth (Some el) p))) =
       (''Online'', ''pill success'') \<and>
     (200 \<le> st \<and> st \<le> 299 \<longrightarrow>
        indicator el
          (fst (resume (Fulfilled (platform_response st hs b)) (checkApiHealth (Some el) p))) =
          (''Online'', ''pill success''))"
  by (simp add: run_present indicator_resume platform_response_def)

theorem ok_response_shows_online_witness:
  "ok response_200 \<and>
   indicator 0 (fst (resume (Fulfilled response_200) (script pill_page))) =
     (''Online'', ''pill success'') \<and>
   indicator 0 (fst (resume (Fulfilled response_204) (script pill_page))) =
     (''Online'', ''pill success'')"
  using ok_response_shows_online
    [of response_200 0 pill_page pill_page 204 "[(''server'', ''uvicorn'')]" "[]"]
  by (simp add: script_def getElementById_def pill_page_def response_200_def
      response_204_def platform_response_def)

text \<open>
  Claim C3. When the element exists and the request fails, the indicator ends with the
  text \<^verbatim>\<open>Offline\<close> and the class \<^verbatim>\<open>pill danger\<close> (the base class and the style class
  danger), the same end state for every kind of failure: a promise rejected with any
  error (a network failure or any other exception of the request), and a response whose
  \<^verbatim>\<open>ok\<close> flag is not set, which is every response the platform builds with a status
  code outside 200 to 299.
\<close>

theorem failure_shows_offline:
  "indicator el (fst (checkApiHealth_resume el (Rejected e) q)) = (''Offline'', ''pill danger'') \<and>
   indicator el (fst (resume (Rejected e) (checkApiHealth (Some el) p))) =
     (''Offline'', ''pill danger'') \<and>
   (\<not> ok r \<longrightarrow>
      indicator el (fst (checkApiHealth_resume el (Fulfilled r) q)) = (''Offline'', ''pill danger'') \<and>
      indicator el (fst (resume (Fulfilled r) (checkApiHealth (Some el) p))) =
        (''Offline'', ''pill danger'')) \<and>
   (st < 200 \<or> 299 < st \<longrightarrow>
      indicator el
        (fst (resume (Fulfilled (platform_response st hs b)) (checkApiHealth (Some el) p))) =
        (''Offline'', ''pill danger''))"
  by (auto simp add: run_present indicator_resume platform_response_def)

theorem failure_shows_offline_witness:
  "\<not> ok response_500 \<and>
   indicator 0 (fst (resume (Fulfilled response_500) (script pill_page))) =
     (''Offline'', ''pill danger'') \<and>
   indicator 0 (fst (resume (Rejected network_error) (script pill_page))) =
     (''Offline'', ''pill danger'')"
  using failure_shows_offline
    [of 0 network_error pill_page pill_page response_500 500 "[]" "''Internal Server Error''"]
  by (simp add: script_def getElementById_def pill_page_def response_500_def
      platform_response_def)

section \<open>Label and class go together\<close>

text \<open>
  Claim C5. The function runs in two uninterrupted stretches: from the call to the
  \<^verbatim>\<open>await\<close>, and from the settlement to the end; the page can be observed only between
  them and after them. In each stretch the writes to the indicator are exactly one text
  immediately followed by one class, the pair is the one the indicator then displays, and
  it is one of the three fixed pairs. What is displayed at the suspension and after a
  completed check shares its label or its class with no other fixed pair: exactly one of
  the three states is shown, never the label of one with the class of another.
\<close>

theorem label_and_class_written_together:
  "paired_writes (new_effects p (fst (checkApiHealth (Some el) p))) =
     Some [(el, indicator el (fst (checkApiHealth (Some el) p)))] \<and>
   indicator el (fst (checkApiHealth (Some el) p)) \<in> set fixed_pairs \<and>
   matching_pairs (indicator el (fst (checkApiHealth (Some el) p))) =
     [indicator el (fst (checkApiHealth (Some el) p))] \<and>
   paired_writes (new_effects q (fst (checkApiHealth_resume el s q))) =
     Some [(el, indicator el (fst (checkApiHealth_resume el s q)))] \<and>
   indicator el (fst (checkApiHealth_resume el s q)) \<in> set fixed_pairs \<and>
   matching_pairs (indicator el (fst (checkApiHealth_resume el s q))) =
     [indicator el (fst (checkApiHealth_resume el s q))]"
  by (simp add: new_effects_present new_effects_resume indicator_present indicator_resume
      fixed_pairs_def matching_pairs_def)

section \<open>No error escapes\<close>

text \<open>
  Claim C6. The call never raises and never hands an error to its caller: the synchronous
  part never ends with a throw, and for every settlement of the request (any response,
  any rejection) the task finishes with the promise fulfilled with \<^verbatim>\<open>undefined\<close>, never
  rejected; this also when the element is absent. Every failure is turned into the
  Offline state of the indicator.
\<close>

theorem never_raises:
  "snd (checkApiHealth statusEl p) \<noteq> Done (Threw e') \<and>
   snd (checkApiHealth_resume el s q) = Done Returned \<and>
   snd (resume s (checkApiHealth statusEl p)) = Done Returned \<and>
   (\<not> success s \<longrightarrow>
      indicator el (fst (checkApiHealth_resume el s q)) = (''Offline'', ''pill danger''))"
  by (cases statusEl) (simp_all add: checkApiHealth_def task_resume indicator_resume)

theorem never_raises_witness:
  "\<not> success (Rejected network_error) \<and>
   snd (script pill_page) \<noteq> Done (Threw network_error) \<and>
   snd (resume (Rejected network_error) (script pill_page)) = Done Returned \<and>
   indicator 0 (fst (resume (Rejected network_error) (script pill_page))) =
     (''Offline'', ''pill danger'')"
  using never_raises [of "Some 0" pill_page network_error 0 "Rejected network_error"
      "fst (script pill_page)"]
  by (simp add: script_def getElementById_def pill_page_def checkApiHealth_present)

section \<open>The request\<close>

text \<open>
  Claim C7. A call with the element present issues exactly one request over its whole
  run, whatever the settlement: a GET to the constant \<open>API_BASE_URL\<close> followed by
  \<^verbatim>\<open>/health\<close>, that is \<^verbatim>\<open>http://localhost:8000/health\<close>. The request is issued in the
  synchronous part; the part after the settlement issues none and finishes the task, so
  nothing is retried.
\<close>

theorem exactly_one_get_request:
  "filter is_request (new_effects p (fst (resume s (checkApiHealth (Some el) p)))) =
     [Request ''GET'' (API_BASE_URL @ ''/health'')] \<and>
   API_BASE_URL @ ''/health'' = ''http://localhost:8000/health'' \<and>
   filter is_request (new_effects p (fst (checkApiHealth (Some el) p))) =
     [Request ''GET'' (API_BASE_URL @ ''/health'')] \<and>
   filter is_request (new_effects q (fst (checkApiHealth_resume el s q))) = [] \<and>
   snd (checkApiHealth_resume el s q) = Done Returned"
  by (simp add: new_effects_run new_effects_present new_effects_resume task_resume
      API_BASE_URL_def)

section \<open>Only the classification of the response matters\<close>

text \<open>
  Claim C8. The end state of the indicator depends on the settlement only through its
  classification, success (a response with \<^verbatim>\<open>ok\<close> set) or failure (a response without
  it, or a rejection): two runs whose settlements have the same classification end with
  the same text and class, whatever the status codes, headers and bodies of the
  responses, the errors, and the pages the runs started from.
\<close>

theorem end_state_from_classification:
  "success s1 = success s2 \<Longrightarrow>
     indicator el1 (fst (checkApiHealth_resume el1 s1 q1)) =
       indicator el2 (fst (checkApiHealth_resume el2 s2 q2)) \<and>
     indicator el1 (fst (resume s1 (checkApiHealth (Some el1) p1))) =
       indicator el2 (fst (resume s2 (checkApiHealth (Some el2) p2)))"
  by (simp add: run_present indicator_resume)

theorem end_state_from_classification_witness:
  "success (Fulfilled response_200) = success (Fulfilled response_204) \<and>
   response_200 \<noteq> response_204 \<and>
   indicator 0 (fst (resume (Fulfilled response_200) (script pill_page))) =
     indicator 0 (fst (resume (Fulfilled response_204) (script pill_page)))"
  using end_state_from_classification [of "Fulfilled response_200" "Fulfilled response_204"
      0 pill_page 0 pill_page pill_page pill_page]
  by (simp add: script_def getElementById_def pill_page_def response_200_def
      response_204_def platform_response_def)

section \<open>The order of the states\<close>

text \<open>
  Claim C9. Loading the script on a document that holds the element makes one call, and
  the indicator goes through the states in the order checking, then online or offline:
  at the suspension it shows the checking state; over the whole run the pairs written
  are the checking pair and then one terminal pair, so a terminal state is entered only
  after the checking state of the same call; the run then is finished, and a further
  settlement changes nothing, so the terminal state stays until a fresh call, which the
  script never makes.
\<close>

theorem checking_then_terminal:
  "getElementById p ''api-status'' = Some el \<Longrightarrow>
     state_of (indicator el (fst (script p))) = Some Checking \<and>
     snd (script p) = Await (checkApiHealth_resume el) \<and>
     map_option (map (state_of \<circ> snd)) (paired_writes (new_effects p (fst (resume s (script p))))) =
       Some [Some Checking, Some (if success s then Online else Offline)] \<and>
     state_of (indicator el (fst (resume s (script p)))) =
       Some (if success s then Online else Offline) \<and>
     snd (resume s (script p)) = Done Returned \<and>
     resume s' (resume s (script p)) = resume s (script p)"
proof -
  assume el: "getElementById p ''api-status'' = Some el"
  have sc: "script p = checkApiHealth (Some el) p"
    by (simp add: script_def el)
  have shown: "state_of (indicator el (fst (script p))) = Some Checking"
    by (simp add: sc indicator_present state_of_def)
  have suspended: "snd (script p) = Await (checkApiHealth_resume el)"
    by (simp add: sc checkApiHealth_present)
  have trace:
    "map_option (map (state_of \<circ> snd))
       (paired_writes (new_effects p (fst (resume s (script p))))) =
     Some [Some Checking, Some (if success s then Online else Offline)]"
    by (simp add: sc new_effects_run state_of_def)
  have final:
    "state_of (indicator el (fst (resume s (script p)))) =
       Some (if success s then Online else Offline)"
    by (simp add: sc run_present indicator_resume state_of_def)
  have finished: "snd (resume s (script p)) = Done Returned"
    by (simp add: sc run_present task_resume)
  have again: "resume s' (resume s (script p)) = resume s (script p)"
  proof -
    obtain p2 where "resume s (script p) = (p2, Done Returned)"
      using finished by (metis prod.collapse)
    then show ?thesis by simp
  qed
  from shown suspended trace final finished again show ?thesis
    by blast
qed

theorem checking_then_terminal_witness:
  "getElementById pill_page ''api-status'' = Some 0 \<and>
   map_option (map (state_of \<circ> snd))
     (paired_writes (effects (fst (resume (Fulfilled response_500) (script pill_page))))) =
     Some [Some Checking, Some Offline] \<and>
   snd (resume (Fulfilled response_500) (script pill_page)) = Done Returned"
  using checking_then_terminal [of pill_page 0 "Fulfilled response_500" "Fulfilled response_200"]
  by (simp add: getElementById_def pill_page_def response_500_def new_effects_def
      platform_response_def)

section \<open>The base class\<close>

text \<open>
  Claim C10. Every write of the class attribute keeps the base class: over a whole run
  the values written are \<^verbatim>\<open>pill\<close> and a space followed by \<^verbatim>\<open>warning\<close>, then by
  \<^verbatim>\<open>success\<close> or \<^verbatim>\<open>danger\<close>, and the class of the element at the suspension and at
  the end has that form.
\<close>

theorem class_writes_keep_pill:
  "class_writes (new_effects p (fst (resume s (checkApiHealth (Some el) p)))) =
     [''pill '' @ ''warning'', ''pill '' @ (if success s then ''success'' else ''danger'')] \<and>
   className (heap (fst (checkApiHealth (Some el) p)) el) = ''pill '' @ ''warning'' \<and>
   class_writes (new_effects q (fst (checkApiHealth_resume el s q))) =
     [''pill '' @ (if success s then ''success'' else ''danger'')] \<and>
   className (heap (fst (checkApiHealth_resume el s q)) el) =
     ''pill '' @ (if success s then ''success'' else ''danger'')"
  by (simp add: new_effects_run new_effects_resume className_present className_resume)

end
